theory Spec2Isabelle
  imports
    Main
    "HOL-Library.Sublist"
    "HOL-Library.List_Lexorder"
    "HOL-Library.Product_Lexorder"
begin

section \<open>The MIET schedule parser: entries, merging, projection onto dates\<close>

text \<open>
  A shallow embedding of \<^verbatim>\<open>calendar_automation.py\<close>: the entry class with its
  comparison methods, the name normalizer \<^verbatim>\<open>get_class_name\<close>, the merger
  \<^verbatim>\<open>merge_list_of_classes\<close> and the loop body of \<^verbatim>\<open>create_ics_file\<close>.
  The network requests and the serialisation of the calendar are not modelled.
\<close>

subsection \<open>Strings, errors, list indexing\<close>

text \<open>
  A Python \<^verbatim>\<open>str\<close> is a sequence of Unicode code points; it is modelled as the list
  of these code points. Equality is list equality and \<^verbatim>\<open><\<close> is the lexicographic
  order by code point with a proper prefix smaller (the order of \<open>List_Lexorder\<close>).
  \<open>str\<close> gives the code points of an ASCII literal.
\<close>

type_synonym pystr = "nat list"

definition str :: "string \<Rightarrow> pystr" where
  "str s = map of_char s"

datatype error = IndexError | ValueError

text \<open>
  \<^verbatim>\<open>xs[i]\<close> and \<^verbatim>\<open>del xs[i]\<close>: a negative index counts from the end, and an index
  outside the list raises \<^verbatim>\<open>IndexError\<close>.
\<close>

definition norm_index :: "'a list \<Rightarrow> int \<Rightarrow> error + nat" where
  "norm_index xs i =
     (let n = int (length xs); j = (if i < 0 then i + n else i)
      in if 0 \<le> j \<and> j < n then Inr (nat j) else Inl IndexError)"

definition getitem :: "'a list \<Rightarrow> int \<Rightarrow> error + 'a" where
  "getitem xs i = (case norm_index xs i of Inl e \<Rightarrow> Inl e | Inr k \<Rightarrow> Inr (xs ! k))"

definition setitem :: "'a list \<Rightarrow> int \<Rightarrow> 'a \<Rightarrow> error + 'a list" where
  "setitem xs i v = (case norm_index xs i of Inl e \<Rightarrow> Inl e | Inr k \<Rightarrow> Inr (xs[k := v]))"

definition delitem :: "'a list \<Rightarrow> int \<Rightarrow> error + 'a list" where
  "delitem xs i =
     (case norm_index xs i of Inl e \<Rightarrow> Inl e | Inr k \<Rightarrow> Inr (take k xs @ drop (Suc k) xs))"

subsection \<open>The entry model\<close>

text \<open>
  \<^verbatim>\<open>class ScheduleEntry\<close>. The constructor sets \<^verbatim>\<open>duration\<close> to 1. The fields that the
  timetable service gives as numbers are Python integers, the two names are strings.
\<close>

record ScheduleEntry =
  class_name :: pystr
  week_code :: int
  room_number :: pystr
  week_day :: int
  slot_number :: int
  duration :: int

definition new_entry :: "pystr \<Rightarrow> int \<Rightarrow> pystr \<Rightarrow> int \<Rightarrow> int \<Rightarrow> ScheduleEntry" where
  "new_entry cn wc rn wd sn =
     \<lparr>class_name = cn, week_code = wc, room_number = rn, week_day = wd,
      slot_number = sn, duration = 1\<rparr>"

text \<open>
  \<^verbatim>\<open>__eq__\<close> and \<^verbatim>\<open>__lt__\<close> compare two five-element tuples. Python compares tuples by
  looking for the first position where the elements are not equal and comparing the
  elements there; tuples equal at every position are equal and not smaller.
\<close>

definition entry_eq :: "ScheduleEntry \<Rightarrow> ScheduleEntry \<Rightarrow> bool" where
  "entry_eq a b \<longleftrightarrow>
     week_code a = week_code b \<and> week_day a = week_day b \<and> slot_number a = slot_number b \<and>
     room_number a = room_number b \<and> class_name a = class_name b"

definition entry_lt :: "ScheduleEntry \<Rightarrow> ScheduleEntry \<Rightarrow> bool" where
  "entry_lt a b \<longleftrightarrow>
     (if week_code a \<noteq> week_code b then week_code a < week_code b
      else if week_day a \<noteq> week_day b then week_day a < week_day b
      else if slot_number a \<noteq> slot_number b then slot_number a < slot_number b
      else if room_number a \<noteq> room_number b then room_number a < room_number b
      else if class_name a \<noteq> class_name b then class_name a < class_name b
      else False)"

text \<open>The tuple that both methods build.\<close>

definition entry_key :: "ScheduleEntry \<Rightarrow> int \<times> int \<times> int \<times> pystr \<times> pystr" where
  "entry_key a = (week_code a, week_day a, slot_number a, room_number a, class_name a)"

definition is_aligned_class :: "ScheduleEntry \<Rightarrow> ScheduleEntry \<Rightarrow> bool" where
  "is_aligned_class a b \<longleftrightarrow>
     class_name a = class_name b \<and> week_code a = week_code b \<and> week_day a = week_day b \<and>
     room_number a = room_number b \<and> \<bar>slot_number a - slot_number b\<bar> = 1"

subsection \<open>The name normalizer\<close>

text \<open>
  The strings are searched from the left: \<open>cut_first sep s\<close> finds the first
  occurrence of \<open>sep\<close> in \<open>s\<close> and gives the text before it and the text after it.
  \<^verbatim>\<open>s.split(sep)\<close> cuts at every occurrence found this way and raises
  \<^verbatim>\<open>ValueError\<close> for an empty separator; \<^verbatim>\<open>s.replace(old, new)\<close> replaces every
  occurrence found this way, and for an empty \<open>old\<close> puts \<open>new\<close> in front of the
  string and after each of its characters. \<^verbatim>\<open>sep in s\<close> is \<open>sublist sep s\<close>.
\<close>

fun cut_first :: "'a list \<Rightarrow> 'a list \<Rightarrow> ('a list \<times> 'a list) option" where
  "cut_first sep [] = None"
| "cut_first sep (c # cs) =
     (if prefix sep (c # cs) then Some ([], drop (length sep) (c # cs))
      else map_option (\<lambda>(h, t). (c # h, t)) (cut_first sep cs))"

function split_pieces :: "'a list \<Rightarrow> 'a list \<Rightarrow> 'a list list" where
  "split_pieces s sep =
     (if sep = [] then []
      else case cut_first sep s of
             None \<Rightarrow> [s]
           | Some (h, t) \<Rightarrow> h # split_pieces t sep)"
  by pat_completeness auto
termination
proof (relation "measure (\<lambda>(s, sep). length s)")
  show "wf (measure (\<lambda>(s :: 'a list, sep :: 'a list). length s))"
    by simp
next
  fix s sep :: "'a list" and x2 h t
  assume sep: "sep \<noteq> []" and cut: "cut_first sep s = Some x2" and x2: "(h, t) = x2"
  have "cut_first sep u = Some (h', t') \<Longrightarrow> length t' < length u" for u h' t'
    using sep by (induction u arbitrary: h') (auto split: if_splits)
  with cut x2 show "((t, sep), (s, sep)) \<in> measure (\<lambda>(s, sep). length s)"
    by auto
qed

declare split_pieces.simps [simp del]

definition str_split :: "'a list \<Rightarrow> 'a list \<Rightarrow> error + 'a list list" where
  "str_split s sep = (if sep = [] then Inl ValueError else Inr (split_pieces s sep))"

function str_replace :: "'a list \<Rightarrow> 'a list \<Rightarrow> 'a list \<Rightarrow> 'a list" where
  "str_replace s old new =
     (if old = [] then new @ concat (map (\<lambda>c. c # new) s)
      else case cut_first old s of
             None \<Rightarrow> s
           | Some (h, t) \<Rightarrow> h @ new @ str_replace t old new)"
  by pat_completeness auto
termination
proof (relation "measure (\<lambda>(s, old, new). length s)")
  show "wf (measure (\<lambda>(s :: 'a list, old :: 'a list, new :: 'a list). length s))"
    by simp
next
  fix s old new :: "'a list" and x2 h t
  assume old: "old \<noteq> []" and cut: "cut_first old s = Some x2" and x2: "(h, t) = x2"
  have "cut_first old u = Some (h', t') \<Longrightarrow> length t' < length u" for u h' t'
    using old by (induction u arbitrary: h') (auto split: if_splits)
  with cut x2 show "((t, old, new), (s, old, new)) \<in> measure (\<lambda>(s, old, new). length s)"
    by auto
qed

declare str_replace.simps [simp del]

text \<open>
  \<^verbatim>\<open>get_class_name\<close>. The rename table \<^verbatim>\<open>class_names_cast\<close> is a global of the
  source; the model takes it as the argument \<open>cast\<close>.
\<close>

definition get_class_name :: "(pystr \<rightharpoonup> pystr) \<Rightarrow> pystr \<Rightarrow> error + pystr" where
  "get_class_name cast name =
     (let long_name = name; class_type = []; res_name = [] in
      case (if sublist (str '' ['') name then
              (case str_split name (str '' ['') of
                 Inl e \<Rightarrow> Inl e
               | Inr parts \<Rightarrow>
                  (case getitem parts 1 of
                     Inl e \<Rightarrow> Inl e
                   | Inr part \<Rightarrow>
                      (let class_type = class_type @ str '' ['' @ part;
                           long_name = str_replace long_name class_type []
                       in Inr (long_name, class_type))))
            else Inr (long_name, class_type)) of
        Inl e \<Rightarrow> Inl e
      | Inr (long_name, class_type) \<Rightarrow>
          (let res_name = (case cast long_name of
                             Some alias \<Rightarrow> res_name @ alias
                           | None \<Rightarrow> res_name @ long_name);
               res_name = res_name @ class_type
           in Inr res_name))"

text \<open>
  The table of the configuration block: two long titles (the words of the second in
  another order) with the same alias, given by their code points.
\<close>

definition title_mpsis_1 :: pystr where
  "title_mpsis_1 =
     [1052, 1080, 1082, 1088, 1086, 1087, 1088, 1086, 1094, 1077, 1089, 1089, 1086, 1088,
      1085, 1099, 1077, 32, 1089, 1088, 1077, 1076, 1089, 1090, 1074, 1072, 32, 1080, 32,
      1089, 1080, 1089, 1090, 1077, 1084, 1099]"

definition title_mpsis_2 :: pystr where
  "title_mpsis_2 =
     [1052, 1080, 1082, 1088, 1086, 1087, 1088, 1086, 1094, 1077, 1089, 1089, 1086, 1088,
      1085, 1099, 1077, 32, 1089, 1080, 1089, 1090, 1077, 1084, 1099, 32, 1080, 32, 1089,
      1088, 1077, 1076, 1089, 1090, 1074, 1072]"

definition alias_mpsis :: pystr where
  "alias_mpsis = [1052, 1055, 1057, 1080, 1057]"

definition class_names_cast :: "pystr \<rightharpoonup> pystr" where
  "class_names_cast = map_of [(title_mpsis_1, alias_mpsis), (title_mpsis_2, alias_mpsis)]"

text \<open>The class type of the worked example: the code points of the tag after the bracket.\<close>

definition type_lab :: pystr where
  "type_lab = [1051, 1072, 1073, 93]"

text \<open>
  The normalizer as the specification words it, for comparison with \<open>get_class_name\<close>:
  if the title contains the bracket separator, everything from its first occurrence
  onward is the suffix and the text before it is the base name; the base name is
  replaced by its alias when it is a key of the table; the suffix is appended unchanged.
\<close>

definition normalize_name_spec :: "(pystr \<rightharpoonup> pystr) \<Rightarrow> pystr \<Rightarrow> pystr" where
  "normalize_name_spec cast title =
     (case cut_first (str '' ['') title of
        None \<Rightarrow> (case cast title of Some alias \<Rightarrow> alias | None \<Rightarrow> title)
      | Some (base_name, rest) \<Rightarrow>
          (case cast base_name of Some alias \<Rightarrow> alias | None \<Rightarrow> base_name)
            @ str '' ['' @ rest)"

subsection \<open>Sorting\<close>

text \<open>
  \<^verbatim>\<open>class_list.sort()\<close> is a stable sort that compares with \<^verbatim>\<open>__lt__\<close> only. It is
  modelled as the stable insertion sort: an element is put in front of the first element
  of the sorted rest that is not smaller than it.
\<close>

fun insort_lt :: "ScheduleEntry \<Rightarrow> ScheduleEntry list \<Rightarrow> ScheduleEntry list" where
  "insort_lt x [] = [x]"
| "insort_lt x (y # ys) = (if entry_lt y x then y # insort_lt x ys else x # y # ys)"

definition list_sort :: "ScheduleEntry list \<Rightarrow> ScheduleEntry list" where
  "list_sort xs = foldr insort_lt xs []"

subsection \<open>The merger\<close>

text \<open>
  \<^verbatim>\<open>merge_list_of_classes\<close>. The loop tests its condition after the body
  (\<^verbatim>\<open>while_cond\<close> starts as \<^verbatim>\<open>True\<close>), so \<open>merge_loop\<close> is one run of the body
  followed by the test. The entries of the list are taken to be distinct objects, as
  the two functions that build the list make them, so that
  \<^verbatim>\<open>class_list[i].duration += 1\<close> changes the entry at position \<open>i\<close> only.
\<close>

function merge_loop :: "ScheduleEntry list \<Rightarrow> int \<Rightarrow> int \<Rightarrow> error + ScheduleEntry list" where
  "merge_loop class_list i list_len =
     (case getitem class_list i of
        Inl e \<Rightarrow> Inl e
      | Inr a \<Rightarrow>
         (case getitem class_list (i + 1) of
            Inl e \<Rightarrow> Inl e
          | Inr b \<Rightarrow>
             if is_aligned_class a b then
               (case setitem class_list i (a\<lparr>duration := duration a + 1\<rparr>) of
                  Inl e \<Rightarrow> Inl e
                | Inr cl1 \<Rightarrow>
                   (case delitem cl1 (i + 1) of
                      Inl e \<Rightarrow> Inl e
                    | Inr cl2 \<Rightarrow>
                       if (i - 1) + 1 < (list_len - 1) - 1
                       then merge_loop cl2 ((i - 1) + 1) (list_len - 1)
                       else Inr cl2))
             else
               if i + 1 < list_len - 1
               then merge_loop class_list (i + 1) list_len
               else Inr class_list))"
  by pat_completeness auto
termination
proof (relation "measure (\<lambda>(cl, i, n). nat (2 * int (length cl) - i))")
  show "wf (measure (\<lambda>(cl, i, n). nat (2 * int (length cl) - i)))"
    by simp
next
  fix class_list :: "ScheduleEntry list" and i list_len :: int and a b cl1 cl2
  assume "getitem class_list i = Inr a" "getitem class_list (i + 1) = Inr b"
    and "setitem class_list i (a\<lparr>duration := duration a + 1\<rparr>) = Inr cl1"
    and "delitem cl1 (i + 1) = Inr cl2"
  then show "((cl2, i - 1 + 1, list_len - 1), (class_list, i, list_len))
      \<in> measure (\<lambda>(cl, i, n). nat (2 * int (length cl) - i))"
    by (auto simp: getitem_def setitem_def delitem_def norm_index_def Let_def
        split: sum.splits if_splits)
next
  fix class_list :: "ScheduleEntry list" and i list_len :: int and a b
  assume "getitem class_list i = Inr a" "getitem class_list (i + 1) = Inr b"
  then show "((class_list, i + 1, list_len), (class_list, i, list_len))
      \<in> measure (\<lambda>(cl, i, n). nat (2 * int (length cl) - i))"
    by (auto simp: getitem_def norm_index_def Let_def split: sum.splits if_splits)
qed

declare merge_loop.simps [simp del]

definition merge_list_of_classes :: "ScheduleEntry list \<Rightarrow> error + ScheduleEntry list" where
  "merge_list_of_classes class_list =
     (let class_list = list_sort class_list;
          i = 0;
          list_len = int (length class_list)
      in merge_loop class_list i list_len)"

subsection \<open>The occurrence projector\<close>

text \<open>
  The loop body of \<^verbatim>\<open>create_ics_file\<close>. A \<^verbatim>\<open>datetime\<close> is counted in whole minutes:
  the value is \<open>1440 * d + m\<close> for the day with proleptic Gregorian ordinal \<open>d\<close>
  (\<^verbatim>\<open>toordinal()\<close>) and \<open>m\<close> minutes after midnight; a \<^verbatim>\<open>timedelta\<close> is a number of
  minutes. Every value the function builds is a whole number of minutes, since
  \<^verbatim>\<open>strptime\<close> with the format \<^verbatim>\<open>%d-%m-%Y\<close> gives midnight. The bounds of the two
  Python types (years 1 to 9999) are not modelled. \<^verbatim>\<open>weekday()\<close> is
  \<^verbatim>\<open>(toordinal() + 6) % 7\<close>, Monday being 0.
\<close>

type_synonym datetime = int

definition midnight :: "int \<Rightarrow> datetime" where
  "midnight d = 1440 * d"

definition toordinal :: "datetime \<Rightarrow> int" where
  "toordinal t = t div 1440"

definition minute_of_day :: "datetime \<Rightarrow> int" where
  "minute_of_day t = t mod 1440"

definition weekday :: "datetime \<Rightarrow> int" where
  "weekday t = (toordinal t + 6) mod 7"

definition timedelta_days :: "int \<Rightarrow> int" where
  "timedelta_days n = 1440 * n"

definition timedelta_hours :: "int \<Rightarrow> int" where
  "timedelta_hours n = 60 * n"

definition timedelta_minutes :: "int \<Rightarrow> int" where
  "timedelta_minutes n = n"

text \<open>The event that the loop body adds to the calendar, with the six properties it sets.\<close>

record Event =
  summary :: pystr
  dtstart :: datetime
  dtend :: datetime
  location :: pystr
  uid :: pystr
  rrule :: "pystr \<times> int \<times> int"

definition class_duration :: "int \<Rightarrow> int \<Rightarrow> ScheduleEntry \<Rightarrow> int" where
  "class_duration academic_hour_duration short_recreation_duration entry =
     (let pair_duration = academic_hour_duration * 2
      in duration entry * pair_duration + (duration entry - 1) * short_recreation_duration)"

definition first_class_date :: "datetime \<Rightarrow> ScheduleEntry \<Rightarrow> datetime" where
  "first_class_date start_date entry =
     (let first_day_of_semester = weekday start_date
      in if week_day entry < first_day_of_semester \<and> week_code entry = 0 then
           (let week_offset = (week_code entry + 4) * 7;
                day_offset = week_day entry - first_day_of_semester - 1
            in start_date + timedelta_days (week_offset + day_offset))
         else
           (let week_offset = week_code entry * 7;
                day_offset = week_day entry - first_day_of_semester
            in start_date + timedelta_days (week_offset + day_offset)))"

definition start_time :: "datetime \<Rightarrow> int \<Rightarrow> int \<Rightarrow> int \<Rightarrow> ScheduleEntry \<Rightarrow> datetime" where
  "start_time start_date academic_hour_duration short_recreation_duration
              long_recreation_duration entry =
     (let pair_duration = academic_hour_duration * 2;
          t = first_class_date start_date entry + timedelta_hours 9;
          t = t + timedelta_minutes (slot_number entry * (pair_duration + 10))
      in if slot_number entry > 2
         then t + timedelta_minutes (long_recreation_duration - short_recreation_duration)
         else t)"

definition end_time :: "datetime \<Rightarrow> int \<Rightarrow> int \<Rightarrow> int \<Rightarrow> ScheduleEntry \<Rightarrow> datetime" where
  "end_time start_date academic_hour_duration short_recreation_duration
            long_recreation_duration entry =
     start_time start_date academic_hour_duration short_recreation_duration
                long_recreation_duration entry
     + timedelta_minutes (class_duration academic_hour_duration short_recreation_duration entry)"

text \<open>
  \<^verbatim>\<open>uuid4()\<close> draws a random identifier. The draw is an argument of the model:
  \<open>make_event\<close> takes the string that \<^verbatim>\<open>str(uuid4())\<close> returns for this event.
\<close>

definition make_event ::
  "datetime \<Rightarrow> int \<Rightarrow> int \<Rightarrow> int \<Rightarrow> int \<Rightarrow> ScheduleEntry \<Rightarrow> pystr \<Rightarrow> Event" where
  "make_event start_date academic_hour_duration short_recreation_duration
              long_recreation_duration repeat_number entry uuid =
     \<lparr>summary = class_name entry,
      dtstart = start_time start_date academic_hour_duration short_recreation_duration
                  long_recreation_duration entry,
      dtend = end_time start_date academic_hour_duration short_recreation_duration
                long_recreation_duration entry,
      location = room_number entry,
      uid = uuid,
      rrule = (str ''weekly'', 4, repeat_number)\<rparr>"

text \<open>
  \<^verbatim>\<open>create_ics_file\<close> up to the calendar it has built when the loop ends: the events
  in the order of the schedule. \<open>uuid4 k\<close> is the identifier of the draw number \<open>k\<close>
  of the run. The function gives back the schedule as the loop leaves it together with
  the events; the loop body assigns to no field of an entry.
\<close>

fun ics_loop ::
  "datetime \<Rightarrow> int \<Rightarrow> int \<Rightarrow> int \<Rightarrow> int \<Rightarrow> (nat \<Rightarrow> pystr) \<Rightarrow> nat \<Rightarrow> ScheduleEntry list
     \<Rightarrow> ScheduleEntry list \<times> Event list" where
  "ics_loop start_date ah sr lr rn uuid4 k [] = ([], [])"
| "ics_loop start_date ah sr lr rn uuid4 k (entry # rest) =
     (let event = make_event start_date ah sr lr rn entry (uuid4 k);
          (rest', events) = ics_loop start_date ah sr lr rn uuid4 (Suc k) rest
      in (entry # rest', event # events))"

definition create_ics_file ::
  "ScheduleEntry list \<Rightarrow> int \<Rightarrow> int \<Rightarrow> int \<Rightarrow> int \<Rightarrow> int \<Rightarrow> (nat \<Rightarrow> pystr)
     \<Rightarrow> ScheduleEntry list \<times> Event list" where
  "create_ics_file schedule start_day academic_hour_duration short_recreation_duration
                   long_recreation_duration repeat_number uuid4 =
     ics_loop (midnight start_day) academic_hour_duration short_recreation_duration
              long_recreation_duration repeat_number uuid4 0 schedule"

subsection \<open>Inputs of the worked examples\<close>

definition example_entry :: "int \<Rightarrow> ScheduleEntry" where
  "example_entry s = new_entry (str ''A'') 0 (str ''101'') 0 s"

text \<open>Two runs whose draws of \<^verbatim>\<open>uuid4()\<close> differ.\<close>

definition uuid_run1 :: "nat \<Rightarrow> pystr" where
  "uuid_run1 k = str ''1''"

definition uuid_run2 :: "nat \<Rightarrow> pystr" where
  "uuid_run2 k = str ''2''"

section \<open>Properties\<close>

subsection \<open>The order of the entries\<close>

lemma entry_lt_key: "entry_lt a b \<longleftrightarrow> entry_key a < entry_key b"
  by (auto simp: entry_lt_def entry_key_def less_prod_def)

lemma entry_eq_key: "entry_eq a b \<longleftrightarrow> entry_key a = entry_key b"
  by (auto simp: entry_eq_def entry_key_def)

lemma insort_lt_key: "insort_lt x ys = insort_key entry_key x ys"
  by (induction ys) (auto simp: entry_lt_key)

lemma list_sort_key: "list_sort xs = sort_key entry_key xs"
  by (induction xs) (simp_all add: list_sort_def insort_lt_key)

lemma list_sort_sorted: "sorted (map entry_key (list_sort xs))"
  by (simp add: list_sort_key)

lemma list_sort_id: "sorted (map entry_key xs) \<Longrightarrow> list_sort xs = xs"
  by (simp add: list_sort_key sort_key_id_if_sorted)

text \<open>
  C7. \<^verbatim>\<open>__lt__\<close> is the lexicographic order of the tuples
  \<open>(week_code, week_day, slot_number, room_number, class_name)\<close> (the order of
  \<open>Product_Lexorder\<close> on \<open>entry_key\<close>) and \<^verbatim>\<open>__eq__\<close> is the equality of these tuples.
  The order is irreflexive, transitive and asymmetric, and of two entries one is smaller
  or they are equal; an equal entry is not smaller. An entry and the same entry with another
  \<open>duration\<close> are equal and neither is smaller. Sorting a sorted list leaves it unchanged.
\<close>

theorem entry_order:
  "(entry_lt a b \<longleftrightarrow> entry_key a < entry_key b) \<and>
   (entry_eq a b \<longleftrightarrow> entry_key a = entry_key b) \<and>
   \<not> entry_lt a a \<and>
   (entry_lt a b \<longrightarrow> entry_lt b c \<longrightarrow> entry_lt a c) \<and>
   (entry_lt a b \<longrightarrow> \<not> entry_lt b a) \<and>
   (entry_lt a b \<or> entry_eq a b \<or> entry_lt b a) \<and>
   (entry_eq a b \<longrightarrow> \<not> entry_lt a b) \<and>
   entry_eq a (a\<lparr>duration := d\<rparr>) \<and>
   \<not> entry_lt a (a\<lparr>duration := d\<rparr>) \<and> \<not> entry_lt (a\<lparr>duration := d\<rparr>) a \<and>
   list_sort (list_sort xs) = list_sort xs"
proof -
  have key_d: "entry_key (a\<lparr>duration := d\<rparr>) = entry_key a"
    by (simp add: entry_key_def)
  have trans: "entry_lt a b \<longrightarrow> entry_lt b c \<longrightarrow> entry_lt a c"
    unfolding entry_lt_key by (blast intro: less_trans)
  have asym: "entry_lt a b \<longrightarrow> \<not> entry_lt b a"
    unfolding entry_lt_key by (blast dest: less_asym)
  have tri: "entry_lt a b \<or> entry_eq a b \<or> entry_lt b a"
    unfolding entry_lt_key entry_eq_key by (rule less_linear)
  have excl: "entry_eq a b \<longrightarrow> \<not> entry_lt a b"
    unfolding entry_lt_key entry_eq_key by simp
  have idem: "list_sort (list_sort xs) = list_sort xs"
    by (rule list_sort_id) (rule list_sort_sorted)
  show ?thesis
    using trans asym tri excl idem
    by (simp add: entry_lt_key entry_eq_key key_d)
qed

theorem entry_order_witness:
  "entry_lt (example_entry 0) (example_entry 1) \<and>
   entry_lt (example_entry 1) (example_entry 2) \<and>
   entry_lt (example_entry 0) (example_entry 2) \<and>
   \<not> entry_lt (example_entry 1) (example_entry 0) \<and>
   entry_eq (example_entry 1) ((example_entry 1)\<lparr>duration := 2\<rparr>) \<and>
   \<not> entry_lt (example_entry 1) ((example_entry 1)\<lparr>duration := 2\<rparr>)"
proof -
  have h1: "entry_lt (example_entry 0) (example_entry 1)"
    by (simp add: entry_lt_def example_entry_def new_entry_def)
  have h2: "entry_lt (example_entry 1) (example_entry 2)"
    by (simp add: entry_lt_def example_entry_def new_entry_def)
  show ?thesis
    using h1 h2 entry_order [of "example_entry 0" "example_entry 1" "example_entry 2"]
      entry_order [of "example_entry 1" "example_entry 0" "example_entry 2" 2]
    by simp
qed

subsection \<open>The merger\<close>

lemma getitem_Nil: "getitem [] i = Inl IndexError"
  by (simp add: getitem_def norm_index_def Let_def)

text \<open>
  C2. Applied to the empty list, \<^verbatim>\<open>merge_list_of_classes\<close> does not return a list: the
  first read \<^verbatim>\<open>class_list[0]\<close> raises \<^verbatim>\<open>IndexError\<close>.
\<close>

theorem merge_empty_raises: "merge_list_of_classes [] = Inl IndexError"
  by (simp add: merge_list_of_classes_def list_sort_def merge_loop.simps getitem_Nil)

text \<open>
  C10. Applied to a list of one entry, \<^verbatim>\<open>merge_list_of_classes\<close> raises
  \<^verbatim>\<open>IndexError\<close>: the body runs before the condition is tested and reads
  \<^verbatim>\<open>class_list[1]\<close>.
\<close>

theorem merge_singleton_raises: "merge_list_of_classes [e] = Inl IndexError"
  by (simp add: merge_list_of_classes_def list_sort_def merge_loop.simps getitem_def
      norm_index_def)

text \<open>
  C1. Three entries with the same name, week code, week day and room and the slots 0, 1
  and 2: the merger returns two entries, the first with slot 0 and duration 2 and the
  entry of slot 2 with duration 1. After the first merge the entry of slot 0 is compared
  with the entry of slot 2, and the slots differ by 2.
\<close>

theorem merge_three_slots:
  "merge_list_of_classes
     [new_entry cn wc rn wd 0, new_entry cn wc rn wd 1, new_entry cn wc rn wd 2]
   = Inr [(new_entry cn wc rn wd 0)\<lparr>duration := 2\<rparr>, new_entry cn wc rn wd 2]"
  by (simp add: merge_list_of_classes_def list_sort_def merge_loop.simps getitem_def
      setitem_def delitem_def norm_index_def new_entry_def entry_lt_def is_aligned_class_def)

text \<open>
  C8. Two aligned entries are merged into one entry, and the merger applied to this
  result raises \<^verbatim>\<open>IndexError\<close> instead of returning it.
\<close>

theorem merge_of_merged_pair_raises:
  "merge_list_of_classes [new_entry cn wc rn wd 0, new_entry cn wc rn wd 1]
     = Inr [(new_entry cn wc rn wd 0)\<lparr>duration := 2\<rparr>] \<and>
   merge_list_of_classes [(new_entry cn wc rn wd 0)\<lparr>duration := 2\<rparr>] = Inl IndexError"
  by (simp add: merge_list_of_classes_def list_sort_def merge_loop.simps getitem_def
      setitem_def delitem_def norm_index_def new_entry_def entry_lt_def is_aligned_class_def)

subsection \<open>The occurrence projector\<close>

lemma first_class_date_midnight:
  "first_class_date (midnight d) entry =
     midnight (if week_day entry < (d + 6) mod 7 \<and> week_code entry = 0
               then d + (week_code entry + 4) * 7 + (week_day entry - (d + 6) mod 7 - 1)
               else d + week_code entry * 7 + (week_day entry - (d + 6) mod 7))"
  by (simp add: first_class_date_def midnight_def weekday_def toordinal_def timedelta_days_def
      Let_def algebra_simps)

lemma weekday_midnight: "weekday (midnight d) = (d + 6) mod 7"
  by (simp add: weekday_def toordinal_def midnight_def)

lemma toordinal_midnight: "toordinal (midnight d) = d"
  by (simp add: toordinal_def midnight_def)

lemma minute_of_day_midnight: "minute_of_day (midnight d) = 0"
  by (simp add: minute_of_day_def midnight_def)

text \<open>
  C3. With \<open>first_weekday\<close> the weekday of the semester start (Monday 0), the day of the
  first occurrence is the start day plus \<open>(week_code + 4) * 7 + (week_day - first_weekday - 1)\<close>
  days when \<open>week_day < first_weekday\<close> and \<open>week_code = 0\<close>, and the start day plus
  \<open>week_code * 7 + (week_day - first_weekday)\<close> days otherwise; the time of this
  \<^verbatim>\<open>datetime\<close> is midnight. The witness is the semester that starts on Wednesday
  2024-02-07 (ordinal 738923) with an entry of Monday in week 0: the first occurrence is
  25 days after the start, which is a Sunday.
\<close>

theorem first_class_date_formula:
  "weekday (midnight d) = (d + 6) mod 7 \<and>
   toordinal (first_class_date (midnight d) entry) =
     (if week_day entry < weekday (midnight d) \<and> week_code entry = 0
      then d + (week_code entry + 4) * 7 + (week_day entry - weekday (midnight d) - 1)
      else d + week_code entry * 7 + (week_day entry - weekday (midnight d))) \<and>
   minute_of_day (first_class_date (midnight d) entry) = 0"
  by (simp add: first_class_date_midnight weekday_midnight toordinal_midnight
      minute_of_day_midnight)

theorem first_class_date_formula_witness:
  "weekday (midnight 738923) = 2 \<and>
   toordinal (first_class_date (midnight 738923) (example_entry 0))
     = 738923 + (0 + 4) * 7 + (0 - 2 - 1) \<and>
   weekday (first_class_date (midnight 738923) (example_entry 0)) = 6"
  using first_class_date_formula [of 738923 "example_entry 0"]
  by (simp add: example_entry_def new_entry_def weekday_def)

text \<open>
  C4. The start is 09:00 on the day of the first occurrence plus
  \<open>slot_number * (2 * academic_hour_duration + 10)\<close> minutes, plus
  \<open>long_recreation_duration - short_recreation_duration\<close> minutes exactly when
  \<open>slot_number > 2\<close>. The witness: hours of 40 minutes, breaks of 10 and 40 minutes,
  slot 3, where the offset from 09:00 is \<open>3 * (80 + 10) + 30\<close> minutes.
\<close>

theorem start_time_formula:
  "start_time (midnight d) ah sr lr entry =
     midnight (toordinal (first_class_date (midnight d) entry)) + 9 * 60
       + slot_number entry * (2 * ah + 10)
       + (if slot_number entry > 2 then lr - sr else 0)"
  by (simp add: start_time_def first_class_date_midnight toordinal_midnight
      timedelta_hours_def timedelta_minutes_def Let_def algebra_simps)

theorem start_time_formula_witness:
  "start_time (midnight 738921) 40 10 40 (example_entry 3) =
     midnight (toordinal (first_class_date (midnight 738921) (example_entry 3)))
       + 9 * 60 + (3 * (80 + 10) + 30)"
  using start_time_formula [of 738921 40 10 40 "example_entry 3"]
  by (simp add: example_entry_def new_entry_def)

text \<open>
  C5. The length of the event in minutes is
  \<open>duration * (2 * academic_hour_duration) + (duration - 1) * short_recreation_duration\<close>,
  and the end is the start plus this length. The witness: hours of 40 minutes, a short
  break of 10 minutes, slot 0 and duration 1 give the start 09:00 and the end 10:20 of the
  same day, 80 minutes later.
\<close>

theorem end_time_formula:
  "class_duration ah sr entry = duration entry * (2 * ah) + (duration entry - 1) * sr \<and>
   end_time s ah sr lr entry = start_time s ah sr lr entry + class_duration ah sr entry \<and>
   dtstart (make_event s ah sr lr rn entry u) = start_time s ah sr lr entry \<and>
   dtend (make_event s ah sr lr rn entry u) =
     dtstart (make_event s ah sr lr rn entry u)
       + (duration entry * (2 * ah) + (duration entry - 1) * sr)"
  by (simp add: class_duration_def end_time_def make_event_def timedelta_minutes_def Let_def
      algebra_simps)

theorem end_time_formula_witness:
  "minute_of_day (dtstart (make_event (midnight 738921) 40 10 40 5 (example_entry 0) (uuid_run1 0))) = 9 * 60 \<and>
   minute_of_day (dtend (make_event (midnight 738921) 40 10 40 5 (example_entry 0) (uuid_run1 0))) = 10 * 60 + 20 \<and>
   toordinal (dtend (make_event (midnight 738921) 40 10 40 5 (example_entry 0) (uuid_run1 0))) =
   toordinal (dtstart (make_event (midnight 738921) 40 10 40 5 (example_entry 0) (uuid_run1 0))) \<and>
   dtend (make_event (midnight 738921) 40 10 40 5 (example_entry 0) (uuid_run1 0))
     - dtstart (make_event (midnight 738921) 40 10 40 5 (example_entry 0) (uuid_run1 0)) = 80"
proof -
  have start: "start_time (midnight 738921) 40 10 40 (example_entry 0) = midnight 738921 + 540"
    by (simp add: start_time_def first_class_date_midnight timedelta_hours_def
        timedelta_minutes_def example_entry_def new_entry_def)
  have dur: "duration (example_entry 0) = 1"
    by (simp add: example_entry_def new_entry_def)
  note f = end_time_formula [of 40 10 "example_entry 0" "midnight 738921" 40 5 "uuid_run1 0"]
  have s: "dtstart (make_event (midnight 738921) 40 10 40 5 (example_entry 0) (uuid_run1 0))
      = midnight 738921 + 540"
    using f by (simp add: start)
  have e: "dtend (make_event (midnight 738921) 40 10 40 5 (example_entry 0) (uuid_run1 0))
      = midnight 738921 + 620"
    using f by (simp add: start dur)
  show ?thesis
    unfolding s e by (simp add: midnight_def minute_of_day_def toordinal_def)
qed

lemma ics_loop_fst: "fst (ics_loop s ah sr lr rn uuid4 k schedule) = schedule"
  by (induction schedule arbitrary: k) (simp_all add: Let_def case_prod_beta)

lemma ics_loop_uid:
  "map uid (snd (ics_loop s ah sr lr rn uuid4 k schedule)) = map uuid4 [k ..< k + length schedule]"
proof (induction schedule arbitrary: k)
  case Nil
  then show ?case by simp
next
  case (Cons e es)
  have IH: "map uid (snd (ics_loop s ah sr lr rn uuid4 (Suc k) es))
      = map uuid4 [Suc k ..< Suc k + length es]"
    by (rule Cons)
  have step: "map uid (snd (ics_loop s ah sr lr rn uuid4 k (e # es)))
      = uuid4 k # map uid (snd (ics_loop s ah sr lr rn uuid4 (Suc k) es))"
    by (simp add: Let_def case_prod_beta make_event_def)
  have upt: "[k ..< k + length (e # es)] = k # [Suc k ..< Suc k + length es]"
  proof -
    have "k < Suc k + length es" by simp
    from upt_conv_Cons [OF this] show ?thesis
      by (simp only: length_Cons add_Suc_right add_Suc)
  qed
  show ?case
    unfolding step IH upt by (simp only: list.map)
qed

lemma ics_loop_events:
  "map (\<lambda>ev. ev\<lparr>uid := v\<rparr>) (snd (ics_loop s ah sr lr rn uuid4 k schedule)) =
   map (\<lambda>entry. make_event s ah sr lr rn entry v) schedule"
  by (induction schedule arbitrary: k) (simp_all add: Let_def case_prod_beta make_event_def)

text \<open>
  C9, as amended. Two runs on the same schedule and configuration give events that agree
  in every field except \<open>uid\<close>: with the \<open>uid\<close> of every event overwritten by one value
  the two lists of events are equal. The \<open>uid\<close> of the event number \<open>k\<close> is the draw
  number \<open>k\<close> of \<^verbatim>\<open>uuid4()\<close> in that run. The schedule is left as it was given.
\<close>

theorem projection_up_to_uid:
  "map (\<lambda>ev. ev\<lparr>uid := v\<rparr>) (snd (create_ics_file schedule d ah sr lr rn uuid4)) =
   map (\<lambda>ev. ev\<lparr>uid := v\<rparr>) (snd (create_ics_file schedule d ah sr lr rn uuid4')) \<and>
   map uid (snd (create_ics_file schedule d ah sr lr rn uuid4)) = map uuid4 [0 ..< length schedule] \<and>
   fst (create_ics_file schedule d ah sr lr rn uuid4) = schedule"
  using ics_loop_uid [of "midnight d" ah sr lr rn uuid4 0 schedule]
  by (simp add: create_ics_file_def ics_loop_events ics_loop_fst)

text \<open>
  C9, as stated, fails: two runs on the same entry and configuration whose draws of
  \<^verbatim>\<open>uuid4()\<close> differ give different events.
\<close>

theorem projection_differs_in_uid:
  "create_ics_file [example_entry 0] 738921 40 10 40 5 uuid_run1 \<noteq>
   create_ics_file [example_entry 0] 738921 40 10 40 5 uuid_run2"
  by (simp add: create_ics_file_def make_event_def uuid_run1_def uuid_run2_def str_def)

subsection \<open>The name normalizer\<close>

lemma str_bracket: "str '' ['' = [32, 91]"
  by (simp add: str_def)

lemma cut_first_None: "sep \<noteq> [] \<Longrightarrow> cut_first sep s = None \<longleftrightarrow> \<not> sublist sep s"
  by (induction s) (auto simp: sublist_Cons_right)

lemma cut_first_bracket:
  "\<not> sublist [32, 91 :: nat] base \<Longrightarrow>
   cut_first ([32, 91] @ x) (base @ [32, 91] @ x @ t) = Some (base, t)"
proof (induction base)
  case Nil
  then show ?case by simp
next
  case (Cons c bs)
  from Cons.prems have np: "\<not> prefix [32, 91] (c # bs)" and ns: "\<not> sublist [32, 91] bs"
    by (simp_all add: sublist_Cons_right)
  have "\<not> prefix ([32, 91] @ x) ((c # bs) @ [32, 91] @ x @ t)"
    using np by (cases bs) auto
  with Cons.IH [OF ns] show ?case by simp
qed

text \<open>
  C6, as amended. A title without the bracket separator is replaced by its alias when it
  is a key of the table and is returned unchanged otherwise. A title with exactly one
  occurrence of the separator, that is a base name and a type that both do not contain
  it, gives the alias of the base name (or the base name, when it is no key) followed by
  the separator and the type unchanged. The witness is the title of the specification's
  example with the table of the source, and a title with no suffix and no alias.
\<close>

theorem get_class_name_one_suffix:
  "(\<not> sublist (str '' ['') name \<longrightarrow>
      get_class_name cast name = Inr (case cast name of Some alias \<Rightarrow> alias | None \<Rightarrow> name)) \<and>
   (\<not> sublist (str '' ['') base \<and> \<not> sublist (str '' ['') ty \<longrightarrow>
      get_class_name cast (base @ str '' ['' @ ty) =
        Inr ((case cast base of Some alias \<Rightarrow> alias | None \<Rightarrow> base) @ str '' ['' @ ty))"
proof (intro conjI impI)
  assume "\<not> sublist (str '' ['') name"
  then show "get_class_name cast name = Inr (case cast name of Some alias \<Rightarrow> alias | None \<Rightarrow> name)"
    by (simp add: get_class_name_def split: option.splits)
next
  assume "\<not> sublist (str '' ['') base \<and> \<not> sublist (str '' ['') ty"
  then have nb: "\<not> sublist [32, 91 :: nat] base" and nt: "\<not> sublist [32, 91 :: nat] ty"
    by (simp_all add: str_bracket)
  let ?name = "base @ 32 # 91 # ty"
  have c1: "cut_first [32, 91] ?name = Some (base, ty)"
    using cut_first_bracket [OF nb, of "[]" ty] by simp
  have c2: "cut_first [32, 91] ty = None"
    using nt by (simp add: cut_first_None)
  have p2: "split_pieces ty [32, 91] = [ty]"
    by (subst split_pieces.simps) (simp add: c2)
  have pieces: "split_pieces ?name [32, 91] = [base, ty]"
    by (subst split_pieces.simps) (simp add: c1 p2)
  have c3: "cut_first (32 # 91 # ty) ?name = Some (base, [])"
    using cut_first_bracket [OF nb, of ty "[]"] by simp
  have r2: "str_replace [] (32 # 91 # ty) [] = []"
    by (subst str_replace.simps) simp
  have repl: "str_replace ?name (32 # 91 # ty) [] = base"
    by (subst str_replace.simps) (simp add: c3 r2)
  have part: "getitem [base, ty] 1 = Inr ty"
    by (simp add: getitem_def norm_index_def)
  have sub: "sublist [32, 91] ?name"
    using sublist_appendI [of "[32, 91]" base ty] by simp
  show "get_class_name cast (base @ str '' ['' @ ty) =
        Inr ((case cast base of Some alias \<Rightarrow> alias | None \<Rightarrow> base) @ str '' ['' @ ty)"
    unfolding str_bracket get_class_name_def
    using sub by (simp add: str_split_def pieces part repl split: option.splits)
qed

theorem get_class_name_one_suffix_witness:
  "\<not> sublist (str '' ['') title_mpsis_1 \<and> \<not> sublist (str '' ['') type_lab \<and>
   get_class_name class_names_cast (title_mpsis_1 @ str '' ['' @ type_lab)
     = Inr (alias_mpsis @ str '' ['' @ type_lab) \<and>
   \<not> sublist (str '' ['') (str ''A'') \<and>
   get_class_name class_names_cast (str ''A'') = Inr (str ''A'')"
proof -
  have h1: "\<not> sublist (str '' ['') title_mpsis_1"
    by code_simp
  have h2: "\<not> sublist (str '' ['') type_lab"
    by code_simp
  have h3: "\<not> sublist (str '' ['') (str ''A'')"
    by code_simp
  have t1: "class_names_cast title_mpsis_1 = Some alias_mpsis"
    by (simp add: class_names_cast_def)
  have t2: "class_names_cast (str ''A'') = None"
    by code_simp
  show ?thesis
    using h1 h2 h3
      get_class_name_one_suffix [of "str ''A''" class_names_cast title_mpsis_1 type_lab]
    by (simp add: t1 t2)
qed

text \<open>
  C6, as stated, fails for a title with two bracketed parts: the code keeps only the
  text between the first and the second separator as the type, removes it from the
  title and appends it at the end, so the bracketed parts change places, while the
  normalizer of the specification returns such a title unchanged.
\<close>

theorem get_class_name_two_suffixes:
  "get_class_name class_names_cast (str ''A [b] [c]'') = Inr (str ''A [c] [b]'') \<and>
   normalize_name_spec class_names_cast (str ''A [b] [c]'') = str ''A [b] [c]''"
  by code_simp

end
